theory Spec2Isabelle
  imports Main "HOL-Library.AList" "HOL-Library.Sublist"
begin

section \<open>The Wild Rydes stack definition\<close>

text \<open>
  The repository is one Python class, \<open>WildRydesCdkStack\<close>
  (\<^verbatim>\<open>wild_rydes_cdk/wild_rydes_cdk_stack.py\<close>), whose constructor adds constructs to a
  construct tree, and \<^verbatim>\<open>app.py\<close>, which calls the constructor once on a fresh
  application. The constructor is embedded statement by statement: the construct tree and
  the local variables are an explicit state, an exception is a value of \<open>error\<close>, and a
  statement that raises leaves the state as it was before the statement.

  The framework the constructor calls (\<^verbatim>\<open>aws_cdk\<close>, version 1) is not part of the
  repository. Its operations are modelled as far as the source uses them and the
  properties below count them:
  \<^item> a construct created with a scope and an identifier becomes a child of that scope,
    and creating a second child with an identifier the scope already has raises;
  \<^item> the base constructor of a stack checks its keyword arguments, its identifier and
    its stack name (\<open>Stack_init\<close> below);
  \<^item> a fresh application holds the child \<open>Tree\<close>;
  \<^item> a REST API created with its defaults owns the role \<open>CloudWatchRole\<close>, the output
    \<open>Endpoint\<close> (its invocation URL) and the root resource \<open>Default\<close>;
  \<^item> a method owns its synthesized method resource (child \<open>Resource\<close>, which the source
    looks up by that name);
  \<^item> a grant on a table or a repository adds a statement to the policy
    \<open>DefaultPolicy\<close> of the grantee role, and a hosting application grants its role the
    right to pull from its repository;
  \<^item> an attribute read on a construct is a token resolved at deployment.

  The other constructs the framework adds by default are left out: the low-level resource
  below each construct other than a method, the deployment, stage and account of the
  REST API, the permissions and the code asset of the function. None of them is a role, a
  policy of a role, a table, an authorizer, an output or a method. Reading the asset directory
  \<^verbatim>\<open>request_unicorn\<close> from the file system is outside the model.
\<close>

subsection \<open>Python values\<close>

type_synonym path = "string list"

datatype PassthroughBehavior = WHEN_NO_MATCH | NEVER | WHEN_NO_TEMPLATES

text \<open>
  \<open>Ref p\<close> is a reference to the construct at path \<open>p\<close> below the stack (\<open>Ref []\<close> is
  \<open>self\<close>); \<open>Attr p a\<close> is the token for attribute \<open>a\<close> of that construct, a string
  to Python; \<open>NO_VALUE\<close> is the token \<open>Aws.NO_VALUE\<close>.
\<close>

datatype py_value =
    Str string
  | Bool bool
  | Dict "(string \<times> py_value) list"
  | Ref path
  | Attr path string
  | LambdaIntegration py_value bool "py_value list"
  | MockIntegration "py_value list" PassthroughBehavior "(string \<times> string) list"
  | NO_VALUE

text \<open>
  The exceptions: of Python (\<open>TypeError\<close> for a keyword argument that is unknown or of
  the wrong type, \<open>UnboundLocalError\<close>, \<open>AttributeError\<close>) and of the framework (an
  empty construct name, an identifier taken in the scope, an identifier that holds a
  token, a stack description over the limit, a stack name that is not valid, a child that
  is not there).
\<close>

datatype error =
    TypeError string
  | EmptyName
  | DuplicateId string
  | TokenInId
  | DescriptionTooLong
  | InvalidStackName
  | NoChild string
  | UnboundLocalError string
  | AttributeError string

subsection \<open>Constructs\<close>

datatype AttributeType = BINARY | NUMBER | STRING
datatype RemovalPolicy = DESTROY | RETAIN | SNAPSHOT
datatype Effect = ALLOW | DENY
datatype EndpointType = EDGE | REGIONAL | PRIVATE
datatype Runtime = NODEJS_10_X | NODEJS_12_X | PYTHON_3_8

datatype Attribute = Attribute string AttributeType

datatype ServicePrincipal = ServicePrincipal string

datatype ManagedPolicy = from_aws_managed_policy_name string

text \<open>The actions of a policy statement: the list the source writes, or the framework's
  list of write actions on a table (\<open>WRITE_DATA_ACTIONS\<close>), kept as a name since its
  members differ between releases of the framework.\<close>

datatype actions = Actions "string list" | WRITE_DATA_ACTIONS

datatype PolicyStatement = PolicyStatement Effect actions "py_value list"

datatype CodeCommitSourceCodeProvider = CodeCommitSourceCodeProvider py_value

datatype AssetCode = AssetCode string

text \<open>
  One constructor per construct class, with the keyword arguments the source passes, in
  the order it passes them. The name of a role is optional (the role a REST API creates
  has none); \<open>CfnMethod\<close> carries its property overrides (none at creation);
  \<open>TreeMetadata\<close> is the child \<open>Tree\<close> of an application.
\<close>

datatype construct =
    App
  | TreeMetadata
  | Stack "(string \<times> py_value) list"
  | is_Repository: Repository string string
  | is_Role: Role "string option" ServicePrincipal "ManagedPolicy list"
  | AmplifyApp CodeCommitSourceCodeProvider string py_value string
  | Branch
  | is_Policy: Policy "py_value list" "PolicyStatement list"
  | is_Table: Table string Attribute RemovalPolicy
  | is_Function: Function string Runtime AssetCode py_value string
  | RestApi string "EndpointType list"
  | RootResource
  | Resource string
  | is_Method: Method string py_value "py_value list"
  | CfnMethod "(string \<times> py_value) list"
  | is_CfnAuthorizer: CfnAuthorizer py_value string string string string "string list"
  | is_CfnOutput: CfnOutput py_value

datatype node = Node (node_id: string) (construct: construct) (children: "node list")

subsection \<open>The construct tree\<close>

fun try_find_child :: "node list \<Rightarrow> string \<Rightarrow> node option" where
  "try_find_child [] i = None"
| "try_find_child (n # ns) i = (if node_id n = i then Some n else try_find_child ns i)"

text \<open>\<open>Construct.__init__(scope, id)\<close>: the new construct becomes the last child of its scope,
  unless the scope has a child of that identifier already.\<close>

definition add_child :: "node \<Rightarrow> node \<Rightarrow> error + node" where
  "add_child child scope =
     (case try_find_child (children scope) (node_id child) of
        Some _ \<Rightarrow> Inl (DuplicateId (node_id child))
      | None \<Rightarrow> Inr (Node (node_id scope) (construct scope) (children scope @ [child])))"

fun update_child :: "string \<Rightarrow> (node \<Rightarrow> error + node) \<Rightarrow> node list \<Rightarrow> error + node list" where
  "update_child i f [] = Inl (NoChild i)"
| "update_child i f (n # ns) =
     (if node_id n = i then map_sum id (\<lambda>n'. n' # ns) (f n)
      else map_sum id (\<lambda>ns'. n # ns') (update_child i f ns))"

text \<open>A method call on the object a reference points to: the construct at the path is
  replaced by the mutated one.\<close>

fun update_at :: "path \<Rightarrow> (node \<Rightarrow> error + node) \<Rightarrow> node \<Rightarrow> error + node" where
  "update_at [] f n = f n"
| "update_at (i # p) f n =
     map_sum id (Node (node_id n) (construct n)) (update_child i (update_at p f) (children n))"

fun node_at :: "path \<Rightarrow> node \<Rightarrow> node option" where
  "node_at [] n = Some n"
| "node_at (i # p) n =
     (case try_find_child (children n) i of None \<Rightarrow> None | Some c \<Rightarrow> node_at p c)"

fun all_nodes :: "node \<Rightarrow> node list" where
  "all_nodes (Node i c ns) = Node i c ns # concat (map all_nodes ns)"

subsection \<open>Frames and statements\<close>

record frame =
  self :: node
  locals :: "(string \<times> py_value) list"

type_synonym stmt = "frame \<Rightarrow> error + frame"

definition and_then :: "error + 'a \<Rightarrow> ('a \<Rightarrow> error + 'b) \<Rightarrow> error + 'b" where
  "and_then r f = (case r of Inl e \<Rightarrow> Inl e | Inr x \<Rightarrow> f x)"

text \<open>Reading a local variable that no statement has assigned yet raises.\<close>

definition var :: "frame \<Rightarrow> string \<Rightarrow> error + py_value" where
  "var fr x = (case map_of (locals fr) x of None \<Rightarrow> Inl (UnboundLocalError x) | Some v \<Rightarrow> Inr v)"

definition assign :: "string \<Rightarrow> py_value \<times> frame \<Rightarrow> error + frame" where
  "assign x r = (case r of (v, fr) \<Rightarrow> Inr (fr\<lparr>locals := AList.update x v (locals fr)\<rparr>))"

definition discard :: "py_value \<times> frame \<Rightarrow> error + frame" where
  "discard r = Inr (snd r)"

definition getattr :: "py_value \<Rightarrow> string \<Rightarrow> error + py_value" where
  "getattr v a = (case v of Ref p \<Rightarrow> Inr (Attr p a) | _ \<Rightarrow> Inl (AttributeError a))"

text \<open>\<open>Cls(scope, id, ...)\<close>: the value is a reference to the new construct.\<close>

definition new :: "py_value \<Rightarrow> node \<Rightarrow> frame \<Rightarrow> error + py_value \<times> frame" where
  "new scope child fr =
     (case scope of
        Ref p \<Rightarrow> map_sum id (\<lambda>s. (Ref (p @ [node_id child]), fr\<lparr>self := s\<rparr>))
                   (update_at p (add_child child) (self fr))
      | _ \<Rightarrow> Inl (AttributeError ''node''))"

fun exec :: "stmt list \<Rightarrow> frame \<Rightarrow> error option \<times> frame" where
  "exec [] fr = (None, fr)"
| "exec (s # ss) fr = (case s fr of Inl e \<Rightarrow> (Some e, fr) | Inr fr' \<Rightarrow> exec ss fr')"

subsection \<open>Framework methods the constructor calls\<close>

text \<open>\<open>app.add_branch(id)\<close>: a branch construct below the hosting application.\<close>

definition add_branch :: "py_value \<Rightarrow> string \<Rightarrow> frame \<Rightarrow> error + py_value \<times> frame" where
  "add_branch app i fr = new app (Node i Branch []) fr"

text \<open>\<open>role.add_to_principal_policy(statement)\<close>: the statement goes to the policy
  \<open>DefaultPolicy\<close> of the role, created and attached to the role at the first statement.\<close>

definition add_to_principal_policy :: "path \<Rightarrow> PolicyStatement \<Rightarrow> node \<Rightarrow> error + node" where
  "add_to_principal_policy p statement n =
     (case construct n of
        Role _ _ _ \<Rightarrow>
          (case try_find_child (children n) ''DefaultPolicy'' of
             None \<Rightarrow> add_child (Node ''DefaultPolicy'' (Policy [Ref p] [statement]) []) n
           | Some _ \<Rightarrow>
               update_at [''DefaultPolicy'']
                 (\<lambda>c. case construct c of
                         Policy roles statements \<Rightarrow>
                           Inr (Node (node_id c) (Policy roles (statements @ [statement]))
                                  (children c))
                       | _ \<Rightarrow> Inl (AttributeError ''add_statements''))
                 n)
      | _ \<Rightarrow> Inl (AttributeError ''grant_principal''))"

text \<open>\<open>table.grant_write_data(grantee)\<close>: a statement that allows the framework's write
  actions on the table (its ARN, and the ARN of its indexes, which is \<open>Aws.NO_VALUE\<close> for
  a table without indexes) is added to the policy of the grantee.\<close>

definition grant_write_data :: "py_value \<Rightarrow> py_value \<Rightarrow> frame \<Rightarrow> error + frame" where
  "grant_write_data table grantee fr =
     (case table of
        Ref t \<Rightarrow>
          (case grantee of
             Ref p \<Rightarrow>
               map_sum id (\<lambda>s. fr\<lparr>self := s\<rparr>)
                 (update_at p
                    (add_to_principal_policy p
                       (PolicyStatement ALLOW WRITE_DATA_ACTIONS [Attr t ''table_arn'', NO_VALUE]))
                    (self fr))
           | _ \<Rightarrow> Inl (AttributeError ''grant_principal''))
      | _ \<Rightarrow> Inl (AttributeError ''grant_write_data''))"

text \<open>\<open>repository.grant_pull(grantee)\<close>: a statement that allows pulling from the
  repository is added to the policy of the grantee.\<close>

definition grant_pull :: "py_value \<Rightarrow> py_value \<Rightarrow> frame \<Rightarrow> error + frame" where
  "grant_pull repository grantee fr =
     (case repository of
        Ref r \<Rightarrow>
          (case grantee of
             Ref p \<Rightarrow>
               map_sum id (\<lambda>s. fr\<lparr>self := s\<rparr>)
                 (update_at p
                    (add_to_principal_policy p
                       (PolicyStatement ALLOW (Actions [''codecommit:GitPull''])
                          [Attr r ''repository_arn'']))
                    (self fr))
           | _ \<Rightarrow> Inl (AttributeError ''grant_principal''))
      | _ \<Rightarrow> Inl (AttributeError ''grant_pull''))"

text \<open>\<open>api.root\<close>: the root resource a REST API is created with.\<close>

definition root :: "py_value \<Rightarrow> error + py_value" where
  "root api = (case api of Ref p \<Rightarrow> Inr (Ref (p @ [''Default''])) | _ \<Rightarrow> Inl (AttributeError ''root''))"

definition add_resource :: "py_value \<Rightarrow> string \<Rightarrow> frame \<Rightarrow> error + py_value \<times> frame" where
  "add_resource parent path_part fr = new parent (Node path_part (Resource path_part) []) fr"

text \<open>\<open>resource.add_method(http_method, integration, method_responses=...)\<close>: the method
  construct is created together with its synthesized method resource.\<close>

definition add_method ::
  "py_value \<Rightarrow> string \<Rightarrow> py_value \<Rightarrow> py_value list \<Rightarrow> frame \<Rightarrow> error + py_value \<times> frame" where
  "add_method resource http_method integration method_responses fr =
     new resource
       (Node http_method (Method http_method integration method_responses)
          [Node ''Resource'' (CfnMethod []) []])
       fr"

text \<open>\<open>construct.node.find_child(id)\<close> raises when there is no such child.\<close>

definition find_child :: "py_value \<Rightarrow> string \<Rightarrow> frame \<Rightarrow> error + py_value" where
  "find_child v i fr =
     (case v of
        Ref p \<Rightarrow> (case node_at (p @ [i]) (self fr) of
                    None \<Rightarrow> Inl (NoChild i)
                  | Some _ \<Rightarrow> Inr (Ref (p @ [i])))
      | _ \<Rightarrow> Inl (AttributeError ''node''))"

text \<open>\<open>cfn_resource.add_property_override(key, value)\<close>, on the one kind of resource the
  source calls it on: a later override of a key replaces the earlier one.\<close>

definition add_property_override :: "py_value \<Rightarrow> string \<Rightarrow> py_value \<Rightarrow> frame \<Rightarrow> error + frame" where
  "add_property_override v k x fr =
     (case v of
        Ref p \<Rightarrow>
          map_sum id (\<lambda>s. fr\<lparr>self := s\<rparr>)
            (update_at p
               (\<lambda>n. case construct n of
                        CfnMethod overrides \<Rightarrow>
                          Inr (Node (node_id n) (CfnMethod (AList.update k x overrides)) (children n))
                      | _ \<Rightarrow> Inl (AttributeError ''add_property_override''))
               (self fr))
      | _ \<Rightarrow> Inl (AttributeError ''add_property_override''))"

text \<open>The Python literal \<^verbatim>\<open>"'s'"\<close>: the text \<open>s\<close> between two single quotes.\<close>

definition sq :: "string \<Rightarrow> string" where
  "sq s = CHR 0x27 # s @ [CHR 0x27]"

subsection \<open>The statements of the constructor, lines 17 to 181\<close>

definition stmt_amplify_repo :: stmt where
  "stmt_amplify_repo fr =
     and_then
       (new (Ref [])
          (Node ''amplify-wild-rydes-repo''
             (Repository ''amplify-wild-rydes''
                ''Repo for the Wild Rydes static site for Amplify'') [])
          fr)
       (assign ''amplify_repo'')"

definition stmt_app_repo :: stmt where
  "stmt_app_repo fr =
     and_then
       (new (Ref [])
          (Node ''app-serverless-workshop-repo''
             (Repository ''app-wild-rydes-serverless-workshop''
                ''Repo for project from webapp.serverlessworkshops.io/staticwebhosting/overview/'') [])
          fr)
       (assign ''app_repo'')"

definition stmt_amplify_role :: stmt where
  "stmt_amplify_role fr =
     and_then
       (new (Ref [])
          (Node ''amplify-wild-rydes-role''
             (Role (Some ''amplify-wild-rydes-role'') (ServicePrincipal ''amplify.amazonaws.com'') []) [])
          fr)
       (assign ''amplify_role'')"

text \<open>Line 38. A hosting application bound to a repository of this kind grants its role
  the right to pull from the repository.\<close>

definition stmt_amplify_static_site :: stmt where
  "stmt_amplify_static_site fr =
     and_then (var fr ''amplify_repo'') (\<lambda>amplify_repo.
     and_then (var fr ''amplify_role'') (\<lambda>amplify_role.
     and_then
       (new (Ref [])
          (Node ''amplify-wild-rydes-site''
             (AmplifyApp (CodeCommitSourceCodeProvider amplify_repo)
                ''Wild Rydes Amplify Static Site'' amplify_role ''wild-rydes-site'') [])
          fr)
       (\<lambda>r. and_then (grant_pull amplify_repo amplify_role (snd r)) (\<lambda>fr'.
          assign ''amplify_static_site'' (fst r, fr')))))"

definition stmt_master :: stmt where
  "stmt_master fr =
     and_then (var fr ''amplify_static_site'') (\<lambda>amplify_static_site.
     and_then (add_branch amplify_static_site ''master'' fr) (assign ''master''))"

definition stmt_amplify_policy :: stmt where
  "stmt_amplify_policy fr =
     and_then (var fr ''amplify_role'') (\<lambda>amplify_role.
     and_then (var fr ''amplify_repo'') (\<lambda>amplify_repo.
     and_then (getattr amplify_repo ''repository_arn'') (\<lambda>repository_arn.
     and_then
       (new (Ref [])
          (Node ''amplify-wild-rydes-policy''
             (Policy [amplify_role]
                [PolicyStatement ALLOW (Actions [''codecommit:GitPull'']) [repository_arn],
                 PolicyStatement ALLOW
                   (Actions
                      [''amplify:GetApp'', ''amplify:CreateBackendEnvironment'',
                       ''cloudformation:*'', ''cognito:*'', ''lambda:*'', ''s3:*'', ''iam:*''])
                   [Str ''*'']]) [])
          fr)
       (assign ''amplify_policy''))))"

definition stmt_rides_table :: stmt where
  "stmt_rides_table fr =
     and_then
       (new (Ref [])
          (Node ''Table'' (Table ''Rides'' (Attribute ''RideId'' STRING) DESTROY) [])
          fr)
       (assign ''rides_table'')"

definition stmt_request_unicorn_role :: stmt where
  "stmt_request_unicorn_role fr =
     and_then
       (new (Ref [])
          (Node ''RequestUnicornRole''
             (Role (Some ''wild-rydes-lambda-role'') (ServicePrincipal ''lambda.amazonaws.com'')
                [from_aws_managed_policy_name ''service-role/AWSLambdaBasicExecutionRole'']) [])
          fr)
       (assign ''request_unicorn_role'')"

definition stmt_grant_write_data :: stmt where
  "stmt_grant_write_data fr =
     and_then (var fr ''rides_table'') (\<lambda>rides_table.
     and_then (var fr ''request_unicorn_role'') (\<lambda>request_unicorn_role.
       grant_write_data rides_table request_unicorn_role fr))"

definition stmt_request_unicorn :: stmt where
  "stmt_request_unicorn fr =
     and_then (var fr ''request_unicorn_role'') (\<lambda>request_unicorn_role.
     and_then
       (new (Ref [])
          (Node ''request-unicorn''
             (Function ''requestUnicorn.handler'' NODEJS_12_X (AssetCode ''request_unicorn'')
                request_unicorn_role ''request-unicorn-wild-rydes'') [])
          fr)
       (assign ''request_unicorn''))"

text \<open>Line 99. The source passes neither \<open>cloud_watch_role\<close> nor \<open>deploy\<close>, so the REST
  API is created with the role that lets the gateway write logs and with the output of
  its invocation URL, before its root resource.\<close>

definition stmt_ride_api_gw :: stmt where
  "stmt_ride_api_gw fr =
     and_then
       (new (Ref [])
          (Node ''wild-rydes-apigw'' (RestApi ''WildRydes'' [REGIONAL])
             [Node ''CloudWatchRole''
                (Role None (ServicePrincipal ''apigateway.amazonaws.com'')
                   [from_aws_managed_policy_name
                      ''service-role/AmazonAPIGatewayPushToCloudWatchLogs'']) [],
              Node ''Endpoint'' (CfnOutput (Attr [''wild-rydes-apigw''] ''url'')) [],
              Node ''Default'' RootResource []])
          fr)
       (assign ''ride_api_gw'')"

definition stmt_ride_api_gw_lambda_integration :: stmt where
  "stmt_ride_api_gw_lambda_integration fr =
     and_then (var fr ''request_unicorn'') (\<lambda>request_unicorn.
       assign ''ride_api_gw_lambda_integration''
         (LambdaIntegration request_unicorn True
            [Dict [(''statusCode'', Str ''200''),
                   (''responseParameters'',
                    Dict [(''method.response.header.Access-Control-Allow-Origin'', Str (sq ''*''))])]],
          fr))"

definition stmt_post_ride_resource :: stmt where
  "stmt_post_ride_resource fr =
     and_then (var fr ''ride_api_gw'') (\<lambda>ride_api_gw.
     and_then (root ride_api_gw) (\<lambda>ride_api_gw_root.
     and_then (add_resource ride_api_gw_root ''ride'' fr) (assign ''post_ride_resource'')))"

definition stmt_post_ride_resource_method :: stmt where
  "stmt_post_ride_resource_method fr =
     and_then (var fr ''post_ride_resource'') (\<lambda>post_ride_resource.
     and_then (var fr ''ride_api_gw_lambda_integration'') (\<lambda>ride_api_gw_lambda_integration.
     and_then
       (add_method post_ride_resource ''POST'' ride_api_gw_lambda_integration
          [Dict [(''statusCode'', Str ''200''),
                 (''responseParameters'',
                  Dict [(''method.response.header.Access-Control-Allow-Origin'', Bool True)])]]
          fr)
       (assign ''post_ride_resource_method'')))"

definition stmt_ride_api_gw_authorizer :: stmt where
  "stmt_ride_api_gw_authorizer fr =
     and_then (var fr ''ride_api_gw'') (\<lambda>ride_api_gw.
     and_then (getattr ride_api_gw ''rest_api_id'') (\<lambda>rest_api_id.
     and_then
       (new (Ref [])
          (Node ''wild-rydes-apigw-authorizer''
             (CfnAuthorizer rest_api_id ''wild-rydes-apigw-authorizer'' ''COGNITO_USER_POOLS''
                ''method.request.header.name.Authorization'' ''Bearer (.*)''
                [''arn:aws:cognito-idp:us-east-1:<ACCOUNT_ID>:userpool/<USER_POOL_ID>'']) [])
          fr)
       (assign ''ride_api_gw_authorizer'')))"

definition stmt_post_ride_resource_fix :: stmt where
  "stmt_post_ride_resource_fix fr =
     and_then (var fr ''post_ride_resource_method'') (\<lambda>post_ride_resource_method.
     and_then (find_child post_ride_resource_method ''Resource'' fr) (\<lambda>child.
       assign ''post_ride_resource_fix'' (child, fr)))"

definition stmt_override_AuthorizationType :: stmt where
  "stmt_override_AuthorizationType fr =
     and_then (var fr ''post_ride_resource_fix'') (\<lambda>post_ride_resource_fix.
       add_property_override post_ride_resource_fix ''AuthorizationType''
         (Str ''COGNITO_USER_POOLS'') fr)"

definition stmt_override_AuthorizerId :: stmt where
  "stmt_override_AuthorizerId fr =
     and_then (var fr ''post_ride_resource_fix'') (\<lambda>post_ride_resource_fix.
     and_then (var fr ''ride_api_gw_authorizer'') (\<lambda>ride_api_gw_authorizer.
     and_then (getattr ride_api_gw_authorizer ''logical_id'') (\<lambda>logical_id.
       add_property_override post_ride_resource_fix ''AuthorizerId''
         (Dict [(''Ref'', logical_id)]) fr)))"

definition stmt_options_method :: stmt where
  "stmt_options_method fr =
     and_then (var fr ''post_ride_resource'') (\<lambda>post_ride_resource.
     and_then
       (add_method post_ride_resource ''OPTIONS''
          (MockIntegration
             [Dict [(''statusCode'', Str ''200''),
                    (''responseParameters'',
                     Dict [(''method.response.header.Access-Control-Allow-Headers'',
                            Str (sq ''Content-Type,X-Amz-Date,Authorization,X-Api-Key,X-Amz-Security-Token'')),
                           (''method.response.header.Access-Control-Allow-Origin'', Str (sq ''*'')),
                           (''method.response.header.Access-Control-Allow-Methods'',
                            Str (sq ''POST,OPTIONS''))])]]
             WHEN_NO_MATCH
             [(''application/json'', ''{\"statusCode\":200}'')])
          [Dict [(''statusCode'', Str ''200''),
                 (''responseParameters'',
                  Dict [(''method.response.header.Access-Control-Allow-Headers'', Bool True),
                        (''method.response.header.Access-Control-Allow-Methods'', Bool True),
                        (''method.response.header.Access-Control-Allow-Origin'', Bool True)])]]
          fr)
       discard)"

definition stmt_amplify_repo_url :: stmt where
  "stmt_amplify_repo_url fr =
     and_then (var fr ''amplify_repo'') (\<lambda>amplify_repo.
     and_then (getattr amplify_repo ''repository_clone_url_http'') (\<lambda>v.
     and_then (new (Ref []) (Node ''amplify-repo-url'' (CfnOutput v) []) fr)
       (assign ''amplify_repo_url'')))"

definition stmt_app_repo_url :: stmt where
  "stmt_app_repo_url fr =
     and_then (var fr ''app_repo'') (\<lambda>app_repo.
     and_then (getattr app_repo ''repository_clone_url_http'') (\<lambda>v.
     and_then (new (Ref []) (Node ''app-repo-url'' (CfnOutput v) []) fr)
       (assign ''app_repo_url'')))"

definition stmt_amplify_default_domain :: stmt where
  "stmt_amplify_default_domain fr =
     and_then (var fr ''amplify_static_site'') (\<lambda>amplify_static_site.
     and_then (getattr amplify_static_site ''default_domain'') (\<lambda>v.
     and_then (new (Ref []) (Node ''amplify-default-domain'' (CfnOutput v) []) fr)
       (assign ''amplify_default_domain'')))"

text \<open>Line 178: the value expression reads \<open>request_unicorn_apigw\<close>, the variable this
  statement is about to assign.\<close>

definition stmt_request_unicorn_apigw :: stmt where
  "stmt_request_unicorn_apigw fr =
     and_then (var fr ''request_unicorn_apigw'') (\<lambda>request_unicorn_apigw.
     and_then (getattr request_unicorn_apigw ''url'') (\<lambda>v.
     and_then (new (Ref []) (Node ''request-unicorn-apigw'' (CfnOutput v) []) fr)
       (assign ''request_unicorn_apigw'')))"

definition body :: "stmt list" where
  "body =
     [stmt_amplify_repo, stmt_app_repo, stmt_amplify_role, stmt_amplify_static_site,
      stmt_master, stmt_amplify_policy, stmt_rides_table, stmt_request_unicorn_role,
      stmt_grant_write_data, stmt_request_unicorn, stmt_ride_api_gw,
      stmt_ride_api_gw_lambda_integration, stmt_post_ride_resource,
      stmt_post_ride_resource_method, stmt_ride_api_gw_authorizer,
      stmt_post_ride_resource_fix, stmt_override_AuthorizationType,
      stmt_override_AuthorizerId, stmt_options_method, stmt_amplify_repo_url,
      stmt_app_repo_url, stmt_amplify_default_domain, stmt_request_unicorn_apigw]"

subsection \<open>The constructor\<close>

text \<open>
  Line 14, \<open>super().__init__(scope, construct_id, **kwargs)\<close>, for a scope that is an
  application, as in \<^verbatim>\<open>app.py\<close>. In the order of the checks:
  \<^item> Python refuses a keyword argument that the base constructor does not have, and
    one whose value is not of the type the base constructor expects;
  \<^item> the identifier is stored with each \<open>/\<close> replaced by \<open>--\<close>; it must not be empty
    and must not be taken in the scope; then the stack is a child of the scope;
  \<^item> an identifier that holds the text of a token is refused;
  \<^item> a description of more than 512 characters is refused;
  \<^item> the stack name, which is the keyword argument \<open>stack_name\<close> or else the stored
    identifier, must be a letter followed by letters, digits and hyphens. The text of a
    token is never such a name.

  A stack refused after it became a child of the scope stays there, empty. Strings are
  taken as ASCII.
\<close>

definition stack_keywords :: "string list" where
  "stack_keywords =
     [''analytics_reporting'', ''description'', ''env'', ''stack_name'', ''synthesizer'',
      ''tags'', ''termination_protection'']"

fun sanitize_id :: "string \<Rightarrow> string" where
  "sanitize_id [] = []"
| "sanitize_id (c # cs) = (if c = CHR ''/'' then ''--'' @ sanitize_id cs else c # sanitize_id cs)"

definition letter :: "char \<Rightarrow> bool" where
  "letter c = (c \<in> set ''ABCDEFGHIJKLMNOPQRSTUVWXYZabcdefghijklmnopqrstuvwxyz'')"

definition digit_or_hyphen :: "char \<Rightarrow> bool" where
  "digit_or_hyphen c = (c \<in> set ''0123456789-'')"

fun valid_stack_name :: "string \<Rightarrow> bool" where
  "valid_stack_name [] = False"
| "valid_stack_name (c # cs) = (letter c \<and> list_all (\<lambda>x. letter x \<or> digit_or_hyphen x) cs)"

text \<open>The text of a token: the opening marker, one or more key characters, the closing
  marker.\<close>

definition key_char :: "char \<Rightarrow> bool" where
  "key_char c = (letter c \<or> c \<in> set ''0123456789:._-'')"

definition token_at :: "string \<Rightarrow> bool" where
  "token_at s =
     (prefix ''${Token['' s \<and> takeWhile key_char (drop 8 s) \<noteq> [] \<and>
      prefix '']}'' (dropWhile key_char (drop 8 s)))"

fun holds_token :: "string \<Rightarrow> bool" where
  "holds_token [] = False"
| "holds_token (c # cs) = (token_at (c # cs) \<or> holds_token cs)"

fun is_str :: "py_value \<Rightarrow> bool" where
  "is_str (Str _) = True"
| "is_str (Attr _ _) = True"
| "is_str NO_VALUE = True"
| "is_str _ = False"

fun is_bool :: "py_value \<Rightarrow> bool" where
  "is_bool (Bool _) = True"
| "is_bool _ = False"

text \<open>The type Python expects of each keyword argument: a string, a truth value, an
  environment (account and region), a dictionary of tags. No value of the model is a
  synthesizer.\<close>

fun keyword_type_ok :: "string \<Rightarrow> py_value \<Rightarrow> bool" where
  "keyword_type_ok k v =
     (if k = ''description'' \<or> k = ''stack_name'' then is_str v
      else if k = ''analytics_reporting'' \<or> k = ''termination_protection'' then is_bool v
      else if k = ''env'' then
        (case v of
           Dict kvs \<Rightarrow>
             list_all (\<lambda>kv. fst kv \<in> set [''account'', ''region''] \<and> is_str (snd kv)) kvs
         | _ \<Rightarrow> False)
      else if k = ''tags'' then
        (case v of Dict kvs \<Rightarrow> list_all (\<lambda>kv. is_str (snd kv)) kvs | _ \<Rightarrow> False)
      else False)"

text \<open>The first keyword argument Python refuses, if any: one the base constructor does not
  have, or else one of the wrong type.\<close>

definition refused_keyword :: "(string \<times> py_value) list \<Rightarrow> string option" where
  "refused_keyword kwargs =
     (case [k \<leftarrow> map fst kwargs. k \<notin> set stack_keywords] of
        k # _ \<Rightarrow> Some k
      | [] \<Rightarrow>
          List.find
            (\<lambda>k. case map_of kwargs k of Some v \<Rightarrow> \<not> keyword_type_ok k v | None \<Rightarrow> False)
            stack_keywords)"

definition description_too_long :: "(string \<times> py_value) list \<Rightarrow> bool" where
  "description_too_long kwargs =
     (case map_of kwargs ''description'' of Some (Str d) \<Rightarrow> 512 < length d | _ \<Rightarrow> False)"

definition stack_name_valid :: "string \<Rightarrow> (string \<times> py_value) list \<Rightarrow> bool" where
  "stack_name_valid i kwargs =
     (case map_of kwargs ''stack_name'' of
        None \<Rightarrow> valid_stack_name i
      | Some (Str n) \<Rightarrow> valid_stack_name n
      | Some _ \<Rightarrow> False)"

text \<open>The result is the exception with the scope as it is left, or the new stack.\<close>

definition Stack_init ::
  "node \<Rightarrow> string \<Rightarrow> (string \<times> py_value) list \<Rightarrow> error \<times> node + node" where
  "Stack_init scope construct_id kwargs =
     (case refused_keyword kwargs of
        Some k \<Rightarrow> Inl (TypeError k, scope)
      | None \<Rightarrow>
          (if sanitize_id construct_id = [] then Inl (EmptyName, scope)
           else
             (case add_child (Node (sanitize_id construct_id) (Stack kwargs) []) scope of
                Inl e \<Rightarrow> Inl (e, scope)
              | Inr scope' \<Rightarrow>
                  (if holds_token construct_id then Inl (TokenInId, scope')
                   else if description_too_long kwargs then Inl (DescriptionTooLong, scope')
                   else if \<not> stack_name_valid (sanitize_id construct_id) kwargs
                   then Inl (InvalidStackName, scope')
                   else Inr (Node (sanitize_id construct_id) (Stack kwargs) [])))))"

text \<open>
  \<open>WildRydesCdkStack(scope, construct_id, **kwargs)\<close>. After line 14 the statements run
  on the stack. The result is the exception raised, if any, and the scope as the call
  leaves it: the stack is a child of the scope from line 14 on, so what the statements
  added to it before an exception is in the scope's tree.
\<close>

definition WildRydesCdkStack ::
  "node \<Rightarrow> string \<Rightarrow> (string \<times> py_value) list \<Rightarrow> error option \<times> node" where
  "WildRydesCdkStack scope construct_id kwargs =
     (case Stack_init scope construct_id kwargs of
        Inl (e, scope') \<Rightarrow> (Some e, scope')
      | Inr stack \<Rightarrow>
          (case exec body \<lparr>self = stack, locals = []\<rparr> of
             (raised, fr) \<Rightarrow>
               (raised, Node (node_id scope) (construct scope) (children scope @ [self fr]))))"

text \<open>\<^verbatim>\<open>app.py\<close>: a fresh application, and the one call of the constructor.\<close>

definition app :: node where
  "app = Node [] App [Node ''Tree'' TreeMetadata []]"

definition app_py :: "error option \<times> node" where
  "app_py = WildRydesCdkStack app ''wild-rydes-cdk'' []"

text \<open>The calls line 14 accepts: on an application, with keyword arguments Python does not
  refuse, an identifier that is not empty, not taken and without a token, a description
  within the limit and a valid stack name.\<close>

definition accepted :: "node \<Rightarrow> string \<Rightarrow> (string \<times> py_value) list \<Rightarrow> bool" where
  "accepted scope construct_id kwargs =
     (construct scope = App \<and>
      refused_keyword kwargs = None \<and>
      construct_id \<noteq> [] \<and>
      sanitize_id construct_id \<notin> node_id ` set (children scope) \<and>
      \<not> holds_token construct_id \<and>
      \<not> description_too_long kwargs \<and>
      stack_name_valid (sanitize_id construct_id) kwargs)"

subsection \<open>Reading the graph\<close>

text \<open>The frame the statements leave when they run on a fresh stack stored as \<open>i\<close>.\<close>

definition built :: "string \<Rightarrow> (string \<times> py_value) list \<Rightarrow> frame" where
  "built i kwargs = snd (exec body \<lparr>self = Node i (Stack kwargs) [], locals = []\<rparr>)"

text \<open>All constructs of the scope's children stored as \<open>i\<close>, the children themselves
  included.\<close>

definition constructs :: "node \<Rightarrow> string \<Rightarrow> node list" where
  "constructs scope i = concat (map all_nodes [n \<leftarrow> children scope. node_id n = i])"

text \<open>The paths a value refers to, as a reference or through a token.\<close>

fun refs :: "py_value \<Rightarrow> path list" where
  "refs (Str _) = []"
| "refs (Bool _) = []"
| "refs (Dict kvs) = concat (map (\<lambda>kv. refs (snd kv)) kvs)"
| "refs (Ref p) = [p]"
| "refs (Attr p _) = [p]"
| "refs (LambdaIntegration handler _ integration_responses) =
     refs handler @ concat (map refs integration_responses)"
| "refs (MockIntegration integration_responses _ _) = concat (map refs integration_responses)"
| "refs NO_VALUE = []"

text \<open>
  Grants on a table are the policy statements that allow an action of the table service
  on a resource that may be the table; a statement belongs to the roles of its policy.
  An action pattern may name a table action when its text before the first wildcard is
  compatible with the service prefix. \<open>W\<close> stands for the members of the framework's
  \<open>WRITE_DATA_ACTIONS\<close>.
\<close>

fun action_list :: "string list \<Rightarrow> actions \<Rightarrow> string list" where
  "action_list W (Actions as) = as"
| "action_list W WRITE_DATA_ACTIONS = W"

definition table_action :: "string \<Rightarrow> bool" where
  "table_action a =
     (let p = takeWhile (\<lambda>c. c \<noteq> CHR ''*'' \<and> c \<noteq> CHR ''?'') a
      in prefix p ''dynamodb:'' \<or> prefix ''dynamodb:'' p)"

definition write_action :: "string \<Rightarrow> bool" where
  "write_action a =
     (a \<in> set [''dynamodb:PutItem'', ''dynamodb:UpdateItem'', ''dynamodb:DeleteItem'',
               ''dynamodb:BatchWriteItem''])"

fun allows_on_table :: "string list \<Rightarrow> path \<Rightarrow> PolicyStatement \<Rightarrow> bool" where
  "allows_on_table W table (PolicyStatement effect acts resources) =
     (effect = ALLOW \<and> list_ex table_action (action_list W acts) \<and>
      list_ex (\<lambda>r. r = Str ''*'' \<or> r = Attr table ''table_arn'') resources)"

fun enables_write :: "string list \<Rightarrow> PolicyStatement \<Rightarrow> bool" where
  "enables_write W (PolicyStatement effect acts resources) =
     (effect = ALLOW \<and> list_ex write_action (action_list W acts))"

fun statements :: "construct \<Rightarrow> (py_value list \<times> PolicyStatement) list" where
  "statements (Policy roles sts) = map (Pair roles) sts"
| "statements _ = []"

definition table_statements ::
  "string list \<Rightarrow> node list \<Rightarrow> path \<Rightarrow> (py_value list \<times> PolicyStatement) list" where
  "table_statements W ns table =
     concat (map (\<lambda>n. [s \<leftarrow> statements (construct n). allows_on_table W table (snd s)]) ns)"

text \<open>The roles of a stack, each with its path below the stack and the managed policies
  it is created with.\<close>

fun roles_from :: "path \<Rightarrow> node \<Rightarrow> (path \<times> ManagedPolicy list) list" where
  "roles_from p (Node i c ns) =
     (case c of Role _ _ managed_policies \<Rightarrow> [(p, managed_policies)] | _ \<Rightarrow> []) @
     concat (map (\<lambda>n. roles_from (p @ [node_id n]) n) ns)"

definition roles :: "node \<Rightarrow> string \<Rightarrow> (path \<times> ManagedPolicy list) list" where
  "roles scope i = concat (map (roles_from []) [n \<leftarrow> children scope. node_id n = i])"

text \<open>The physical name a construct declares, with the kind of resource it names.\<close>

fun physical_name :: "construct \<Rightarrow> (string \<times> string) list" where
  "physical_name (Repository repository_name _) = [(''repository'', repository_name)]"
| "physical_name (Role (Some role_name) _ _) = [(''role'', role_name)]"
| "physical_name (Table table_name _ _) = [(''table'', table_name)]"
| "physical_name (Function _ _ _ _ function_name) = [(''function'', function_name)]"
| "physical_name _ = []"

definition physical_names :: "node list \<Rightarrow> (string \<times> string) list" where
  "physical_names ns = concat (map (\<lambda>n. physical_name (construct n)) ns)"

text \<open>What the integration of a method refers to (nothing for other constructs).\<close>

fun integration_refs :: "construct \<Rightarrow> path list" where
  "integration_refs (Method _ integration _) = refs integration"
| "integration_refs _ = []"

text \<open>The execution role of a function.\<close>

fun function_role :: "construct \<Rightarrow> py_value list" where
  "function_role (Function _ _ _ role _) = [role]"
| "function_role _ = []"

definition function_roles :: "node list \<Rightarrow> py_value list" where
  "function_roles ns = concat (map (\<lambda>n. function_role (construct n)) ns)"

text \<open>The provider references of an authorizer.\<close>

fun provider_arns :: "construct \<Rightarrow> string list" where
  "provider_arns (CfnAuthorizer _ _ _ _ _ arns) = arns"
| "provider_arns _ = []"

section \<open>Properties of the constructor\<close>

subsection \<open>The call as a whole\<close>

lemma write_action_table_action: "write_action a \<Longrightarrow> table_action a"
  by (auto simp: write_action_def table_action_def)

lemma try_find_child_None: "i \<notin> node_id ` set ns \<Longrightarrow> try_find_child ns i = None"
  by (induction ns) auto


lemma filter_id_fresh: "i \<notin> node_id ` set ns \<Longrightarrow> [n \<leftarrow> ns. node_id n = i] = []"
  by (induction ns) auto

lemma try_find_child_append:
  "i \<notin> node_id ` set ns \<Longrightarrow> node_id n = i \<Longrightarrow> try_find_child (ns @ [n]) i = Some n"
  by (induction ns) auto

lemma sanitize_id_Nil: "sanitize_id i = [] \<longleftrightarrow> i = []"
  by (cases i) auto


lemma add_child_free: "node_id c \<notin> node_id ` set (children scope) \<Longrightarrow>
    add_child c scope = Inr (Node (node_id scope) (construct scope) (children scope @ [c]))"
  by (simp add: add_child_def try_find_child_None)

lemma exec_body_raised:
  "fst (exec body \<lparr>self = Node i (Stack kw) [], locals = []\<rparr>) =
     Some (UnboundLocalError ''request_unicorn_apigw'')"
  by code_simp

lemma exec_body:
  "exec body \<lparr>self = Node i (Stack kw) [], locals = []\<rparr> =
     (Some (UnboundLocalError ''request_unicorn_apigw''), built i kw)"
  using exec_body_raised [of i kw] by (simp add: built_def prod_eq_iff)

lemma node_id_built: "node_id (self (built i kw)) = i"
  by code_simp


lemma Stack_init_accepted:
  assumes "accepted scope i kw"
  shows "Stack_init scope i kw = Inr (Node (sanitize_id i) (Stack kw) [])"
  using assms by (simp add: accepted_def Stack_init_def sanitize_id_Nil add_child_free)


lemma WildRydesCdkStack_accepted:
  assumes "accepted scope i kw"
  shows "WildRydesCdkStack scope i kw =
           (Some (UnboundLocalError ''request_unicorn_apigw''),
            Node (node_id scope) (construct scope)
              (children scope @ [self (built (sanitize_id i) kw)]))"
  by (simp add: WildRydesCdkStack_def Stack_init_accepted [OF assms] exec_body)

lemma constructs_accepted:
  assumes "accepted scope i kw"
  shows "constructs (snd (WildRydesCdkStack scope i kw)) (sanitize_id i) =
           all_nodes (self (built (sanitize_id i) kw))"
proof -
  have "sanitize_id i \<notin> node_id ` set (children scope)"
    using assms by (simp add: accepted_def)
  then show ?thesis
    by (simp add: WildRydesCdkStack_accepted [OF assms] constructs_def filter_id_fresh
        node_id_built)
qed

lemma roles_accepted:
  assumes "accepted scope i kw"
  shows "roles (snd (WildRydesCdkStack scope i kw)) (sanitize_id i) =
           roles_from [] (self (built (sanitize_id i) kw))"
proof -
  have "sanitize_id i \<notin> node_id ` set (children scope)"
    using assms by (simp add: accepted_def)
  then show ?thesis
    by (simp add: WildRydesCdkStack_accepted [OF assms] roles_def filter_id_fresh node_id_built)
qed

lemma node_at_accepted:
  assumes "accepted scope i kw"
  shows "node_at (sanitize_id i # p) (snd (WildRydesCdkStack scope i kw)) =
           node_at p (self (built (sanitize_id i) kw))"
proof -
  have "sanitize_id i \<notin> node_id ` set (children scope)"
    using assms by (simp add: accepted_def)
  then show ?thesis
    by (simp add: WildRydesCdkStack_accepted [OF assms] try_find_child_append node_id_built)
qed

text \<open>Line 14 without keyword arguments: the four ways it raises.\<close>

lemma refused_keyword_Nil: "refused_keyword [] = None"
  by (simp add: refused_keyword_def stack_keywords_def)





lemma accepted_Nil:
  "accepted scope i [] \<longleftrightarrow>
     construct scope = App \<and> i \<noteq> [] \<and> sanitize_id i \<notin> node_id ` set (children scope) \<and>
     \<not> holds_token i \<and> valid_stack_name (sanitize_id i)"
  by (simp add: accepted_def refused_keyword_Nil description_too_long_def stack_name_valid_def)

text \<open>The call of \<^verbatim>\<open>app.py\<close> is one that line 14 accepts.\<close>

lemma accepted_app_py: "accepted app ''wild-rydes-cdk'' []"
proof -
  have "\<not> holds_token ''wild-rydes-cdk''"
    by code_simp
  then show ?thesis
    by (simp add: accepted_Nil app_def letter_def digit_or_hyphen_def)
qed

text \<open>The stack the statements leave, in full.\<close>

lemma self_built:
  "self (built i kw) =
     Node i (Stack kw)
       [Node ''amplify-wild-rydes-repo''
          (Repository ''amplify-wild-rydes'' ''Repo for the Wild Rydes static site for Amplify'') [],
        Node ''app-serverless-workshop-repo''
          (Repository ''app-wild-rydes-serverless-workshop''
             ''Repo for project from webapp.serverlessworkshops.io/staticwebhosting/overview/'') [],
        Node ''amplify-wild-rydes-role''
          (Role (Some ''amplify-wild-rydes-role'') (ServicePrincipal ''amplify.amazonaws.com'') [])
          [Node ''DefaultPolicy''
             (Policy [Ref [''amplify-wild-rydes-role'']]
                [PolicyStatement ALLOW (Actions [''codecommit:GitPull''])
                   [Attr [''amplify-wild-rydes-repo''] ''repository_arn'']]) []],
        Node ''amplify-wild-rydes-site''
          (AmplifyApp (CodeCommitSourceCodeProvider (Ref [''amplify-wild-rydes-repo'']))
             ''Wild Rydes Amplify Static Site'' (Ref [''amplify-wild-rydes-role''])
             ''wild-rydes-site'')
          [Node ''master'' Branch []],
        Node ''amplify-wild-rydes-policy''
          (Policy [Ref [''amplify-wild-rydes-role'']]
             [PolicyStatement ALLOW (Actions [''codecommit:GitPull''])
                [Attr [''amplify-wild-rydes-repo''] ''repository_arn''],
              PolicyStatement ALLOW
                (Actions
                   [''amplify:GetApp'', ''amplify:CreateBackendEnvironment'',
                    ''cloudformation:*'', ''cognito:*'', ''lambda:*'', ''s3:*'', ''iam:*''])
                [Str ''*'']]) [],
        Node ''Table'' (Table ''Rides'' (Attribute ''RideId'' STRING) DESTROY) [],
        Node ''RequestUnicornRole''
          (Role (Some ''wild-rydes-lambda-role'') (ServicePrincipal ''lambda.amazonaws.com'')
             [from_aws_managed_policy_name ''service-role/AWSLambdaBasicExecutionRole''])
          [Node ''DefaultPolicy''
             (Policy [Ref [''RequestUnicornRole'']]
                [PolicyStatement ALLOW WRITE_DATA_ACTIONS
                   [Attr [''Table''] ''table_arn'', NO_VALUE]]) []],
        Node ''request-unicorn''
          (Function ''requestUnicorn.handler'' NODEJS_12_X (AssetCode ''request_unicorn'')
             (Ref [''RequestUnicornRole'']) ''request-unicorn-wild-rydes'') [],
        Node ''wild-rydes-apigw'' (RestApi ''WildRydes'' [REGIONAL])
          [Node ''CloudWatchRole''
             (Role None (ServicePrincipal ''apigateway.amazonaws.com'')
                [from_aws_managed_policy_name
                   ''service-role/AmazonAPIGatewayPushToCloudWatchLogs'']) [],
           Node ''Endpoint'' (CfnOutput (Attr [''wild-rydes-apigw''] ''url'')) [],
           Node ''Default'' RootResource
             [Node ''ride'' (Resource ''ride'')
                [Node ''POST''
                   (Method ''POST''
                      (LambdaIntegration (Ref [''request-unicorn'']) True
                         [Dict [(''statusCode'', Str ''200''),
                                (''responseParameters'',
                                 Dict [(''method.response.header.Access-Control-Allow-Origin'',
                                        Str (sq ''*''))])]])
                      [Dict [(''statusCode'', Str ''200''),
                             (''responseParameters'',
                              Dict [(''method.response.header.Access-Control-Allow-Origin'',
                                     Bool True)])]])
                   [Node ''Resource''
                      (CfnMethod
                         [(''AuthorizationType'', Str ''COGNITO_USER_POOLS''),
                          (''AuthorizerId'',
                           Dict [(''Ref'', Attr [''wild-rydes-apigw-authorizer''] ''logical_id'')])])
                      []],
                 Node ''OPTIONS''
                   (Method ''OPTIONS''
                      (MockIntegration
                         [Dict [(''statusCode'', Str ''200''),
                                (''responseParameters'',
                                 Dict [(''method.response.header.Access-Control-Allow-Headers'',
                                        Str (sq ''Content-Type,X-Amz-Date,Authorization,X-Api-Key,X-Amz-Security-Token'')),
                                       (''method.response.header.Access-Control-Allow-Origin'',
                                        Str (sq ''*'')),
                                       (''method.response.header.Access-Control-Allow-Methods'',
                                        Str (sq ''POST,OPTIONS''))])]]
                         WHEN_NO_MATCH
                         [(''application/json'', ''{\"statusCode\":200}'')])
                      [Dict [(''statusCode'', Str ''200''),
                             (''responseParameters'',
                              Dict [(''method.response.header.Access-Control-Allow-Headers'',
                                     Bool True),
                                    (''method.response.header.Access-Control-Allow-Methods'',
                                     Bool True),
                                    (''method.response.header.Access-Control-Allow-Origin'',
                                     Bool True)])]])
                   [Node ''Resource'' (CfnMethod []) []]]]],
        Node ''wild-rydes-apigw-authorizer''
          (CfnAuthorizer (Attr [''wild-rydes-apigw''] ''rest_api_id'')
             ''wild-rydes-apigw-authorizer'' ''COGNITO_USER_POOLS''
             ''method.request.header.name.Authorization'' ''Bearer (.*)''
             [''arn:aws:cognito-idp:us-east-1:<ACCOUNT_ID>:userpool/<USER_POOL_ID>'']) [],
        Node ''amplify-repo-url''
          (CfnOutput (Attr [''amplify-wild-rydes-repo''] ''repository_clone_url_http'')) [],
        Node ''app-repo-url''
          (CfnOutput (Attr [''app-serverless-workshop-repo''] ''repository_clone_url_http'')) [],
        Node ''amplify-default-domain''
          (CfnOutput (Attr [''amplify-wild-rydes-site''] ''default_domain'')) []]"
  by code_simp

subsection \<open>Outputs and failure\<close>




text \<open>
  C2. The specification allows construction to fail only on a colliding identifier or on a
  malformed cross-reference. Evaluated at the call of \<^verbatim>\<open>app.py\<close>, which line 14
  accepts and where no child of the application has the identifier, the constructor
  raises an unbound-local-variable error.
\<close>

theorem raises_without_collision:
  "accepted app ''wild-rydes-cdk'' [] \<and>
   ''wild-rydes-cdk'' \<notin> node_id ` set (children app) \<and>
   fst (WildRydesCdkStack app ''wild-rydes-cdk'' []) =
     Some (UnboundLocalError ''request_unicorn_apigw'')"
proof -
  have "''wild-rydes-cdk'' \<notin> node_id ` set (children app)"
    by (simp add: app_def)
  moreover have "fst (WildRydesCdkStack app ''wild-rydes-cdk'' []) =
      Some (UnboundLocalError ''request_unicorn_apigw'')"
    by code_simp
  ultimately show ?thesis
    using accepted_app_py by simp
qed




subsection \<open>The API methods and the authorizer\<close>

text \<open>
  C4. In the graph the constructor builds when line 14 accepts the call, the synthesized
  method resource below the POST method (its child \<open>Resource\<close>) has the authorization
  type overridden to \<open>COGNITO_USER_POOLS\<close> and the authorizer identifier overridden to a
  reference to the logical id of the declared authorizer, and these are its only
  overrides.
\<close>

theorem post_method_authorization_override:
  assumes "accepted scope construct_id kwargs"
  shows "node_at [sanitize_id construct_id, ''wild-rydes-apigw'', ''Default'', ''ride'', ''POST'',
                  ''Resource'']
           (snd (WildRydesCdkStack scope construct_id kwargs)) =
         Some (Node ''Resource''
                 (CfnMethod
                    [(''AuthorizationType'', Str ''COGNITO_USER_POOLS''),
                     (''AuthorizerId'',
                      Dict [(''Ref'', Attr [''wild-rydes-apigw-authorizer''] ''logical_id'')])])
                 []) \<and>
         map_option (\<lambda>n. is_Method (construct n))
           (node_at [sanitize_id construct_id, ''wild-rydes-apigw'', ''Default'', ''ride'', ''POST'']
              (snd (WildRydesCdkStack scope construct_id kwargs))) = Some True \<and>
         map_option (\<lambda>n. is_CfnAuthorizer (construct n))
           (node_at [sanitize_id construct_id, ''wild-rydes-apigw-authorizer'']
              (snd (WildRydesCdkStack scope construct_id kwargs))) = Some True"
proof -
  have "node_at [''wild-rydes-apigw'', ''Default'', ''ride'', ''POST'', ''Resource'']
          (self (built (sanitize_id construct_id) kwargs)) =
        Some (Node ''Resource''
                 (CfnMethod
                    [(''AuthorizationType'', Str ''COGNITO_USER_POOLS''),
                     (''AuthorizerId'',
                      Dict [(''Ref'', Attr [''wild-rydes-apigw-authorizer''] ''logical_id'')])])
                 [])"
    by (simp add: self_built)
  moreover have "map_option (\<lambda>n. is_Method (construct n))
      (node_at [''wild-rydes-apigw'', ''Default'', ''ride'', ''POST'']
         (self (built (sanitize_id construct_id) kwargs))) = Some True"
    by (simp add: self_built)
  moreover have "map_option (\<lambda>n. is_CfnAuthorizer (construct n))
      (node_at [''wild-rydes-apigw-authorizer''] (self (built (sanitize_id construct_id) kwargs))) = Some True"
    by (simp add: self_built)
  ultimately show ?thesis
    unfolding node_at_accepted [OF assms] by (intro conjI)
qed

text \<open>The statement at the call of \<^verbatim>\<open>app.py\<close>.\<close>

theorem post_method_authorization_override_witness:
  "accepted app ''wild-rydes-cdk'' [] \<and>
   node_at [''wild-rydes-cdk'', ''wild-rydes-apigw'', ''Default'', ''ride'', ''POST'', ''Resource'']
     (snd (WildRydesCdkStack app ''wild-rydes-cdk'' [])) =
   Some (Node ''Resource''
                 (CfnMethod
                    [(''AuthorizationType'', Str ''COGNITO_USER_POOLS''),
                     (''AuthorizerId'',
                      Dict [(''Ref'', Attr [''wild-rydes-apigw-authorizer''] ''logical_id'')])])
                 [])"
  using accepted_app_py post_method_authorization_override [OF accepted_app_py] by simp

text \<open>
  C5. In that graph the resource \<open>ride\<close> below the root of the API has exactly two
  children: the POST method, integrated with the function in proxy mode, whose integration
  and method responses carry the Access-Control-Allow-Origin parameter, and the OPTIONS
  method, a mock integration with static CORS headers. The POST integration refers to the
  function and the OPTIONS integration refers to no construct.
\<close>

theorem ride_methods:
  assumes "accepted scope construct_id kwargs"
  shows "map_option (\<lambda>n. (construct n, map (\<lambda>m. (node_id m, construct m)) (children n)))
           (node_at [sanitize_id construct_id, ''wild-rydes-apigw'', ''Default'', ''ride'']
              (snd (WildRydesCdkStack scope construct_id kwargs))) =
         Some (Resource ''ride'',
           [(''POST'',
             Method ''POST''
               (LambdaIntegration (Ref [''request-unicorn'']) True
                  [Dict [(''statusCode'', Str ''200''),
                         (''responseParameters'',
                          Dict [(''method.response.header.Access-Control-Allow-Origin'',
                                 Str (sq ''*''))])]])
               [Dict [(''statusCode'', Str ''200''),
                      (''responseParameters'',
                       Dict [(''method.response.header.Access-Control-Allow-Origin'',
                              Bool True)])]]),
            (''OPTIONS'',
             Method ''OPTIONS''
               (MockIntegration
                  [Dict [(''statusCode'', Str ''200''),
                         (''responseParameters'',
                          Dict [(''method.response.header.Access-Control-Allow-Headers'',
                                 Str (sq ''Content-Type,X-Amz-Date,Authorization,X-Api-Key,X-Amz-Security-Token'')),
                                (''method.response.header.Access-Control-Allow-Origin'',
                                 Str (sq ''*'')),
                                (''method.response.header.Access-Control-Allow-Methods'',
                                 Str (sq ''POST,OPTIONS''))])]]
                  WHEN_NO_MATCH
                  [(''application/json'', ''{\"statusCode\":200}'')])
               [Dict [(''statusCode'', Str ''200''),
                      (''responseParameters'',
                       Dict [(''method.response.header.Access-Control-Allow-Headers'', Bool True),
                             (''method.response.header.Access-Control-Allow-Methods'', Bool True),
                             (''method.response.header.Access-Control-Allow-Origin'',
                              Bool True)])]])]) \<and>
         map_option (\<lambda>n. map (\<lambda>m. (node_id m, integration_refs (construct m))) (children n))
           (node_at [sanitize_id construct_id, ''wild-rydes-apigw'', ''Default'', ''ride'']
              (snd (WildRydesCdkStack scope construct_id kwargs))) =
         Some [(''POST'', [[''request-unicorn'']]), (''OPTIONS'', [])] \<and>
         map_option (\<lambda>n. is_Function (construct n))
           (node_at [sanitize_id construct_id, ''request-unicorn'']
              (snd (WildRydesCdkStack scope construct_id kwargs))) = Some True"
proof -
  have "map_option (\<lambda>n. (construct n, map (\<lambda>m. (node_id m, construct m)) (children n)))
           (node_at [''wild-rydes-apigw'', ''Default'', ''ride''] (self (built (sanitize_id construct_id) kwargs))) =
         Some (Resource ''ride'',
           [(''POST'',
             Method ''POST''
               (LambdaIntegration (Ref [''request-unicorn'']) True
                  [Dict [(''statusCode'', Str ''200''),
                         (''responseParameters'',
                          Dict [(''method.response.header.Access-Control-Allow-Origin'',
                                 Str (sq ''*''))])]])
               [Dict [(''statusCode'', Str ''200''),
                      (''responseParameters'',
                       Dict [(''method.response.header.Access-Control-Allow-Origin'',
                              Bool True)])]]),
            (''OPTIONS'',
             Method ''OPTIONS''
               (MockIntegration
                  [Dict [(''statusCode'', Str ''200''),
                         (''responseParameters'',
                          Dict [(''method.response.header.Access-Control-Allow-Headers'',
                                 Str (sq ''Content-Type,X-Amz-Date,Authorization,X-Api-Key,X-Amz-Security-Token'')),
                                (''method.response.header.Access-Control-Allow-Origin'',
                                 Str (sq ''*'')),
                                (''method.response.header.Access-Control-Allow-Methods'',
                                 Str (sq ''POST,OPTIONS''))])]]
                  WHEN_NO_MATCH
                  [(''application/json'', ''{\"statusCode\":200}'')])
               [Dict [(''statusCode'', Str ''200''),
                      (''responseParameters'',
                       Dict [(''method.response.header.Access-Control-Allow-Headers'', Bool True),
                             (''method.response.header.Access-Control-Allow-Methods'', Bool True),
                             (''method.response.header.Access-Control-Allow-Origin'',
                              Bool True)])]])])"
    by (simp add: self_built)
  moreover have "map_option (\<lambda>n. map (\<lambda>m. (node_id m, integration_refs (construct m))) (children n))
      (node_at [''wild-rydes-apigw'', ''Default'', ''ride''] (self (built (sanitize_id construct_id) kwargs))) =
      Some [(''POST'', [[''request-unicorn'']]), (''OPTIONS'', [])]"
    by (simp add: self_built)
  moreover have "map_option (\<lambda>n. is_Function (construct n))
      (node_at [''request-unicorn''] (self (built (sanitize_id construct_id) kwargs))) = Some True"
    by (simp add: self_built)
  ultimately show ?thesis
    unfolding node_at_accepted [OF assms] by (intro conjI)
qed

text \<open>The statement at the call of \<^verbatim>\<open>app.py\<close>.\<close>

theorem ride_methods_witness:
  "accepted app ''wild-rydes-cdk'' [] \<and>
   map_option (\<lambda>n. map (\<lambda>m. (node_id m, integration_refs (construct m))) (children n))
     (node_at [''wild-rydes-cdk'', ''wild-rydes-apigw'', ''Default'', ''ride'']
        (snd (WildRydesCdkStack app ''wild-rydes-cdk'' []))) =
   Some [(''POST'', [[''request-unicorn'']]), (''OPTIONS'', [])]"
  using accepted_app_py ride_methods [OF accepted_app_py] by simp

text \<open>
  C9. In that graph there is one authorizer. Its type is \<open>COGNITO_USER_POOLS\<close>, its
  identity source is \<open>method.request.header.name.Authorization\<close>, with the segment
  \<open>name\<close> between \<open>header\<close> and \<open>Authorization\<close>, its validation expression is
  \<open>Bearer (.*)\<close>, and its single provider reference is a literal ARN that contains the
  placeholders \<open><ACCOUNT_ID>\<close> and \<open><USER_POOL_ID>\<close>.
\<close>

theorem authorizer_declared:
  assumes "accepted scope construct_id kwargs"
  shows "[n \<leftarrow> constructs (snd (WildRydesCdkStack scope construct_id kwargs)) (sanitize_id construct_id).
            is_CfnAuthorizer (construct n)] =
         [Node ''wild-rydes-apigw-authorizer''
            (CfnAuthorizer (Attr [''wild-rydes-apigw''] ''rest_api_id'')
               ''wild-rydes-apigw-authorizer'' ''COGNITO_USER_POOLS''
               ''method.request.header.name.Authorization'' ''Bearer (.*)''
               [''arn:aws:cognito-idp:us-east-1:<ACCOUNT_ID>:userpool/<USER_POOL_ID>'']) []] \<and>
         list_all (\<lambda>arn. sublist ''<ACCOUNT_ID>'' arn \<and> sublist ''<USER_POOL_ID>'' arn)
           (concat (map (\<lambda>n. provider_arns (construct n))
              (constructs (snd (WildRydesCdkStack scope construct_id kwargs)) (sanitize_id construct_id)))) \<and>
         length (concat (map (\<lambda>n. provider_arns (construct n))
              (constructs (snd (WildRydesCdkStack scope construct_id kwargs)) (sanitize_id construct_id)))) = 1 \<and>
         sublist ''header.name.Authorization'' ''method.request.header.name.Authorization''"
proof -
  have "[n \<leftarrow> all_nodes (self (built (sanitize_id construct_id) kwargs)). is_CfnAuthorizer (construct n)] =
         [Node ''wild-rydes-apigw-authorizer''
            (CfnAuthorizer (Attr [''wild-rydes-apigw''] ''rest_api_id'')
               ''wild-rydes-apigw-authorizer'' ''COGNITO_USER_POOLS''
               ''method.request.header.name.Authorization'' ''Bearer (.*)''
               [''arn:aws:cognito-idp:us-east-1:<ACCOUNT_ID>:userpool/<USER_POOL_ID>'']) []]"
    by (simp add: self_built)
  moreover have arns: "concat (map (\<lambda>n. provider_arns (construct n))
      (all_nodes (self (built (sanitize_id construct_id) kwargs)))) =
      [''arn:aws:cognito-idp:us-east-1:<ACCOUNT_ID>:userpool/<USER_POOL_ID>'']"
    by (simp add: self_built)
  moreover have "sublist ''<ACCOUNT_ID>''
      ''arn:aws:cognito-idp:us-east-1:<ACCOUNT_ID>:userpool/<USER_POOL_ID>''"
    by code_simp
  moreover have "sublist ''<USER_POOL_ID>''
      ''arn:aws:cognito-idp:us-east-1:<ACCOUNT_ID>:userpool/<USER_POOL_ID>''"
    by code_simp
  moreover have "sublist ''header.name.Authorization'' ''method.request.header.name.Authorization''"
    by code_simp
  ultimately show ?thesis
    unfolding constructs_accepted [OF assms] by simp
qed

text \<open>The statement at the call of \<^verbatim>\<open>app.py\<close>.\<close>

theorem authorizer_declared_witness:
  "accepted app ''wild-rydes-cdk'' [] \<and>
   [n \<leftarrow> constructs (snd (WildRydesCdkStack app ''wild-rydes-cdk'' [])) ''wild-rydes-cdk''. is_CfnAuthorizer (construct n)] =
   [Node ''wild-rydes-apigw-authorizer''
            (CfnAuthorizer (Attr [''wild-rydes-apigw''] ''rest_api_id'')
               ''wild-rydes-apigw-authorizer'' ''COGNITO_USER_POOLS''
               ''method.request.header.name.Authorization'' ''Bearer (.*)''
               [''arn:aws:cognito-idp:us-east-1:<ACCOUNT_ID>:userpool/<USER_POOL_ID>'']) []]"
  using accepted_app_py authorizer_declared [OF accepted_app_py] by simp

subsection \<open>The table and its grants\<close>

text \<open>
  C6. In that graph there is exactly one table; its name is \<open>Rides\<close>, its partition key
  is \<open>RideId\<close> of type string, and its removal policy is \<open>DESTROY\<close>.
\<close>

theorem one_table:
  assumes "accepted scope construct_id kwargs"
  shows "[n \<leftarrow> constructs (snd (WildRydesCdkStack scope construct_id kwargs)) (sanitize_id construct_id).
            is_Table (construct n)] =
         [Node ''Table'' (Table ''Rides'' (Attribute ''RideId'' STRING) DESTROY) []]"
  by (simp add: constructs_accepted [OF assms] self_built)

text \<open>The statement at the call of \<^verbatim>\<open>app.py\<close>.\<close>

theorem one_table_witness:
  "accepted app ''wild-rydes-cdk'' [] \<and>
   [n \<leftarrow> constructs (snd (WildRydesCdkStack app ''wild-rydes-cdk'' [])) ''wild-rydes-cdk''. is_Table (construct n)] =
   [Node ''Table'' (Table ''Rides'' (Attribute ''RideId'' STRING) DESTROY) []]"
  using accepted_app_py one_table [OF accepted_app_py] by simp

text \<open>
  C7. In the graph the constructor builds when line 14 accepts the call (made without
  keyword arguments), provided the framework's write actions \<open>W\<close> include one of the
  actions that write an item, exactly one policy statement is a grant on the table. It
  belongs to the policy of \<open>RequestUnicornRole\<close> alone, the execution role of the one
  function, and it enables writing. The stack has three roles, that one, the role of the
  hosting application and the logging role of the API; the managed policies they are
  created with are the two logging policies.
\<close>

theorem table_grants_compute_role:
  assumes "accepted scope construct_id []" and "list_ex write_action W"
  shows "table_statements W
           (constructs (snd (WildRydesCdkStack scope construct_id [])) (sanitize_id construct_id)) [''Table''] =
         [([Ref [''RequestUnicornRole'']],
           PolicyStatement ALLOW WRITE_DATA_ACTIONS [Attr [''Table''] ''table_arn'', NO_VALUE])] \<and>
         list_all (\<lambda>s. enables_write W (snd s))
           (table_statements W
              (constructs (snd (WildRydesCdkStack scope construct_id [])) (sanitize_id construct_id)) [''Table'']) \<and>
         roles (snd (WildRydesCdkStack scope construct_id [])) (sanitize_id construct_id) =
         [([''amplify-wild-rydes-role''], []),
          ([''RequestUnicornRole''],
           [from_aws_managed_policy_name ''service-role/AWSLambdaBasicExecutionRole'']),
          ([''wild-rydes-apigw'', ''CloudWatchRole''],
           [from_aws_managed_policy_name
              ''service-role/AmazonAPIGatewayPushToCloudWatchLogs''])] \<and>
         function_roles
           (constructs (snd (WildRydesCdkStack scope construct_id [])) (sanitize_id construct_id)) =
         [Ref [''RequestUnicornRole'']] \<and>
         map node_id
           [n \<leftarrow> constructs (snd (WildRydesCdkStack scope construct_id [])) (sanitize_id construct_id).
              is_Table (construct n)] =
         [''Table'']"
proof -
  have W: "list_ex table_action W"
    using assms(2) write_action_table_action by (auto simp: list_ex_iff)
  have "table_statements W (all_nodes (self (built (sanitize_id construct_id) []))) [''Table''] =
      [([Ref [''RequestUnicornRole'']],
           PolicyStatement ALLOW WRITE_DATA_ACTIONS [Attr [''Table''] ''table_arn'', NO_VALUE])]"
    using W by (simp add: self_built table_statements_def table_action_def)
  moreover have "roles_from [] (self (built (sanitize_id construct_id) [])) =
      [([''amplify-wild-rydes-role''], []),
          ([''RequestUnicornRole''],
           [from_aws_managed_policy_name ''service-role/AWSLambdaBasicExecutionRole'']),
          ([''wild-rydes-apigw'', ''CloudWatchRole''],
           [from_aws_managed_policy_name
              ''service-role/AmazonAPIGatewayPushToCloudWatchLogs''])]"
    by (simp add: self_built)
  moreover have "function_roles (all_nodes (self (built (sanitize_id construct_id) []))) =
      [Ref [''RequestUnicornRole'']]"
    by (simp add: self_built function_roles_def)
  moreover have "map node_id [n \<leftarrow> all_nodes (self (built (sanitize_id construct_id) [])).
      is_Table (construct n)] = [''Table'']"
    by (simp add: self_built)
  ultimately show ?thesis
    unfolding constructs_accepted [OF assms(1)] roles_accepted [OF assms(1)]
    using assms(2) by simp
qed

text \<open>The statement at the call of \<^verbatim>\<open>app.py\<close>, for the write actions of a late release
  of the framework.\<close>

theorem table_grants_compute_role_witness:
  "accepted app ''wild-rydes-cdk'' [] \<and>
   list_ex write_action
     [''dynamodb:BatchWriteItem'', ''dynamodb:PutItem'', ''dynamodb:UpdateItem'',
      ''dynamodb:DeleteItem'', ''dynamodb:DescribeTable''] \<and>
   table_statements
     [''dynamodb:BatchWriteItem'', ''dynamodb:PutItem'', ''dynamodb:UpdateItem'',
      ''dynamodb:DeleteItem'', ''dynamodb:DescribeTable'']
     (constructs (snd (WildRydesCdkStack app ''wild-rydes-cdk'' [])) ''wild-rydes-cdk'') [''Table''] =
   [([Ref [''RequestUnicornRole'']],
           PolicyStatement ALLOW WRITE_DATA_ACTIONS [Attr [''Table''] ''table_arn'', NO_VALUE])] \<and>
   roles (snd (WildRydesCdkStack app ''wild-rydes-cdk'' [])) ''wild-rydes-cdk'' =
   [([''amplify-wild-rydes-role''], []),
          ([''RequestUnicornRole''],
           [from_aws_managed_policy_name ''service-role/AWSLambdaBasicExecutionRole'']),
          ([''wild-rydes-apigw'', ''CloudWatchRole''],
           [from_aws_managed_policy_name
              ''service-role/AmazonAPIGatewayPushToCloudWatchLogs''])]"
proof -
  have W: "list_ex write_action
     [''dynamodb:BatchWriteItem'', ''dynamodb:PutItem'', ''dynamodb:UpdateItem'',
      ''dynamodb:DeleteItem'', ''dynamodb:DescribeTable'']"
    by (simp add: write_action_def)
  show ?thesis
    using accepted_app_py W table_grants_compute_role [OF accepted_app_py W] by simp
qed

subsection \<open>Physical names\<close>

text \<open>
  C10, as amended. Whatever the identifier, when line 14 accepts the call (made without
  keyword arguments) the stack declares the same physical names: two repositories, two roles, one table and one
  function. So two stacks built under any two accepted identifiers declare identical
  physical names.
\<close>

theorem physical_names_fixed:
  assumes "accepted scope i []" and "accepted scope' j []"
  shows "physical_names (constructs (snd (WildRydesCdkStack scope i [])) (sanitize_id i)) =
         [(''repository'', ''amplify-wild-rydes''),
          (''repository'', ''app-wild-rydes-serverless-workshop''),
          (''role'', ''amplify-wild-rydes-role''),
          (''table'', ''Rides''),
          (''role'', ''wild-rydes-lambda-role''),
          (''function'', ''request-unicorn-wild-rydes'')] \<and>
         physical_names (constructs (snd (WildRydesCdkStack scope' j [])) (sanitize_id j)) =
         physical_names (constructs (snd (WildRydesCdkStack scope i [])) (sanitize_id i))"
proof -
  have names: "physical_names (all_nodes (self (built c kw))) =
         [(''repository'', ''amplify-wild-rydes''),
          (''repository'', ''app-wild-rydes-serverless-workshop''),
          (''role'', ''amplify-wild-rydes-role''),
          (''table'', ''Rides''),
          (''role'', ''wild-rydes-lambda-role''),
          (''function'', ''request-unicorn-wild-rydes'')]" for c kw
    by (simp add: self_built physical_names_def)
  show ?thesis
    unfolding constructs_accepted [OF assms(1)] constructs_accepted [OF assms(2)] names by simp
qed

text \<open>The statement for two stacks built one after the other in the application of
  \<^verbatim>\<open>app.py\<close>.\<close>

theorem physical_names_fixed_witness:
  "accepted app ''wild-rydes-cdk'' [] \<and>
   accepted (snd (WildRydesCdkStack app ''wild-rydes-cdk'' [])) ''wild-rydes-cdk-2'' [] \<and>
   physical_names (constructs (snd (WildRydesCdkStack app ''wild-rydes-cdk'' [])) ''wild-rydes-cdk'') =
   [(''repository'', ''amplify-wild-rydes''),
          (''repository'', ''app-wild-rydes-serverless-workshop''),
          (''role'', ''amplify-wild-rydes-role''),
          (''table'', ''Rides''),
          (''role'', ''wild-rydes-lambda-role''),
          (''function'', ''request-unicorn-wild-rydes'')] \<and>
   physical_names
     (constructs
        (snd (WildRydesCdkStack (snd (WildRydesCdkStack app ''wild-rydes-cdk'' [])) ''wild-rydes-cdk-2'' []))
        ''wild-rydes-cdk-2'') =
   physical_names (constructs (snd (WildRydesCdkStack app ''wild-rydes-cdk'' [])) ''wild-rydes-cdk'')"
proof -
  have "\<not> holds_token ''wild-rydes-cdk-2''"
    by code_simp
  then have second: "accepted (snd (WildRydesCdkStack app ''wild-rydes-cdk'' [])) ''wild-rydes-cdk-2'' []"
    by (simp add: WildRydesCdkStack_accepted [OF accepted_app_py] accepted_Nil node_id_built
        letter_def digit_or_hyphen_def)
      (simp add: app_def)
  show ?thesis
    using accepted_app_py second physical_names_fixed [OF accepted_app_py second] by simp
qed

text \<open>C10 as first stated, for every identifier, fails at the identifier \<open>wild_rydes\<close>:
  line 14 refuses the stack name and the stack left in the application declares nothing.\<close>

theorem physical_names_counterexample:
  "physical_names
     (constructs (snd (WildRydesCdkStack app ''wild_rydes'' [])) ''wild_rydes'') = [] \<and>
   physical_names
     (constructs (snd (WildRydesCdkStack app ''wild_rydes'' [])) ''wild_rydes'') \<noteq>
   [(''repository'', ''amplify-wild-rydes''),
          (''repository'', ''app-wild-rydes-serverless-workshop''),
          (''role'', ''amplify-wild-rydes-role''),
          (''table'', ''Rides''),
          (''role'', ''wild-rydes-lambda-role''),
          (''function'', ''request-unicorn-wild-rydes'')]"
  by code_simp

end
